theory Spec2Isabelle
  imports Complex_Main "HOL-Library.Product_Lexorder" "HOL-Library.Multiset"
begin

section \<open>Common types\<close>

text \<open>
  Calendar dates (\<^verbatim>\<open>datetime.date\<close>) are proleptic ordinal day numbers, so that
  \<^verbatim>\<open>d - timedelta(days=k)\<close> is \<open>d - k\<close>.  Timezone-aware datetimes are absolute
  instants, counted in seconds since the Unix epoch.  UUIDs are natural numbers.
\<close>

type_synonym date = int
type_synonym instant = int
type_synonym uuid = nat

text \<open>The exceptions the modelled code can raise.\<close>

datatype py_error = ValueError | TypeError | IntegrityError | MultipleResultsFound

text \<open>
  A JSON field holding an ISO string (\<^verbatim>\<open>"day"\<close>, \<^verbatim>\<open>"bedtime_end"\<close>): \<open>Absent\<close> is a
  falsy value (key missing, \<^verbatim>\<open>null\<close> or the empty string), \<open>Malformed\<close> a string that
  \<^verbatim>\<open>fromisoformat\<close> rejects with \<^verbatim>\<open>ValueError\<close>, and \<open>Parsed v\<close> a string that
  \<^verbatim>\<open>fromisoformat\<close> turns into \<open>v\<close>.  Day strings are identified with the date they
  denote.
\<close>

datatype 'a parsed = Absent | Malformed | Parsed 'a

text \<open>\<^verbatim>\<open>X.fromisoformat(s) if s else None\<close>\<close>

fun fromisoformat_opt :: "'a parsed \<Rightarrow> py_error + 'a option" where
  "fromisoformat_opt Absent = Inr None"
| "fromisoformat_opt Malformed = Inl ValueError"
| "fromisoformat_opt (Parsed v) = Inr (Some v)"

text \<open>
  A JSON field read with \<^verbatim>\<open>dict.get(key, default)\<close>, where a missing key and an explicit
  \<^verbatim>\<open>null\<close> differ.
\<close>

datatype 'a jfield = Missing | Null | Val 'a

text \<open>\<^verbatim>\<open>d.get(key)\<close>\<close>

fun jget :: "'a jfield \<Rightarrow> 'a option" where
  "jget Missing = None"
| "jget Null = None"
| "jget (Val v) = Some v"

text \<open>Python truthiness of an optional string and of an optional integer.\<close>

fun truthy_str :: "string option \<Rightarrow> bool" where
  "truthy_str None = False"
| "truthy_str (Some s) = (s \<noteq> [])"

fun truthy_int :: "int option \<Rightarrow> bool" where
  "truthy_int None = False"
| "truthy_int (Some n) = (n \<noteq> 0)"

section \<open>Token manager: \<^verbatim>\<open>OuraSyncService.get_access_token\<close>\<close>

record oura_auth =
  auth_user_id :: uuid
  access_token :: "string option"
  refresh_token :: "string option"
  token_expires_at :: "instant option"
  is_active :: bool
  last_sync_at :: "instant option"
  updated_at :: instant

text \<open>
  The dictionary returned by \<^verbatim>\<open>refresh_access_token\<close>: \<open>td_access_token = None\<close> is a
  missing key (\<^verbatim>\<open>token_data["access_token"]\<close> raises \<^verbatim>\<open>KeyError\<close>, which the
  handler turns into \<^verbatim>\<open>return None\<close>); \<open>td_expires_in = None\<close> is a missing key, for which
  the default of 86400 seconds is taken.
\<close>

record token_data =
  td_access_token :: "string option"
  td_refresh_token :: "string jfield"
  td_expires_in :: "int option"

text \<open>
  \<open>auth\<close> is the result of the query for the user's active authorisation row; \<open>refresh\<close> is
  the vendor's refresh call (\<open>None\<close> when it raises); \<open>now\<close> is \<^verbatim>\<open>now_hk()\<close>.  The result
  is the returned token, the authorisation row afterwards and whether the refresh endpoint was
  called.
\<close>

definition get_access_token ::
  "oura_auth option \<Rightarrow> instant \<Rightarrow> (string \<Rightarrow> token_data option)
     \<Rightarrow> string option \<times> oura_auth option \<times> bool" where
  "get_access_token auth now refresh =
     (case auth of
        None \<Rightarrow> (None, None, False)
      | Some a \<Rightarrow>
          if \<not> truthy_str (access_token a) then (None, Some a, False)
          else if (case token_expires_at a of None \<Rightarrow> False | Some e \<Rightarrow> e < now) then
            (case refresh_token a of
               None \<Rightarrow> (None, Some a, False)
             | Some rt \<Rightarrow>
                 if rt = [] then (None, Some a, False)
                 else
                   (case refresh rt of
                      None \<Rightarrow> (None, Some a, True)
                    | Some td \<Rightarrow>
                        (case td_access_token td of
                           None \<Rightarrow> (None, Some a, True)
                         | Some tok \<Rightarrow>
                             let a' = a\<lparr>access_token := Some tok,
                                        refresh_token :=
                                          (case td_refresh_token td of
                                             Missing \<Rightarrow> refresh_token a
                                           | Null \<Rightarrow> None
                                           | Val v \<Rightarrow> Some v),
                                        token_expires_at :=
                                          Some (now + (case td_expires_in td of
                                                         None \<Rightarrow> 86400 | Some s \<Rightarrow> s)),
                                        updated_at := now\<rparr>
                             in (access_token a', Some a', True))))
          else (access_token a, Some a, False))"

section \<open>Data model\<close>

subsection \<open>Vendor payloads\<close>

text \<open>
  The \<^verbatim>\<open>contributors\<close> object of a daily sleep summary, read key by key with
  \<^verbatim>\<open>.get\<close>; a missing object (\<^verbatim>\<open>item.get("contributors", {})\<close>) has every key \<open>None\<close>.
\<close>

record sleep_contributors =
  c_total_sleep :: "int option"
  c_efficiency :: "int option"
  c_restfulness :: "int option"
  c_rem_sleep :: "int option"
  c_deep_sleep :: "int option"
  c_latency :: "int option"
  c_timing :: "int option"

definition no_contributors :: sleep_contributors where
  "no_contributors =
     \<lparr>c_total_sleep = None, c_efficiency = None, c_restfulness = None, c_rem_sleep = None,
      c_deep_sleep = None, c_latency = None, c_timing = None\<rparr>"

text \<open>One element of \<^verbatim>\<open>all_data["sleep"]\<close> (the daily sleep summary stream).\<close>

record daily_sleep_item =
  ds_id :: "string option"
  ds_day :: "date parsed"
  ds_score :: "int option"
  ds_contributors :: sleep_contributors

text \<open>The \<^verbatim>\<open>readiness\<close> object embedded in a sleep detail.\<close>

record readiness_contributors =
  rc_sleep_balance :: "int option"
  rc_previous_night :: "int option"
  rc_recovery_index :: "int option"
  rc_activity_balance :: "int option"
  rc_body_temperature :: "int option"
  rc_resting_heart_rate :: "int option"
  rc_hrv_balance :: "int option"
  rc_previous_day_activity :: "int option"

definition no_readiness_contributors :: readiness_contributors where
  "no_readiness_contributors =
     \<lparr>rc_sleep_balance = None, rc_previous_night = None, rc_recovery_index = None,
      rc_activity_balance = None, rc_body_temperature = None, rc_resting_heart_rate = None,
      rc_hrv_balance = None, rc_previous_day_activity = None\<rparr>"

record detail_readiness =
  dr_score :: "int option"
  dr_contributors :: readiness_contributors
  dr_temperature_deviation :: "rat option"
  dr_temperature_trend_deviation :: "rat option"

text \<open>The measurements of a sleep detail that are copied into the row as they are.\<close>

record sleep_measurements =
  m_deep_sleep_duration :: "int option"
  m_light_sleep_duration :: "int option"
  m_rem_sleep_duration :: "int option"
  m_awake_time :: "int option"
  m_average_heart_rate :: "int option"
  m_lowest_heart_rate :: "int option"
  m_average_hrv :: "int option"
  m_average_breath :: "rat option"
  m_efficiency :: "int option"
  m_time_in_bed :: "int option"
  m_latency :: "int option"
  m_restless_periods :: "int option"

text \<open>
  One element of \<^verbatim>\<open>all_data["sleep_details"]\<close> (one sleep segment).  \<open>sd_readiness = None\<close>
  is a falsy \<^verbatim>\<open>readiness\<close> value (missing, \<^verbatim>\<open>null\<close> or empty).
\<close>

record sleep_detail =
  sd_id :: "string option"
  sd_day :: "date parsed"
  sd_type :: "string option"
  sd_total_sleep_duration :: "int jfield"
  sd_bedtime_start :: "instant parsed"
  sd_bedtime_end :: "instant parsed"
  sd_measurements :: sleep_measurements
  sd_readiness :: "detail_readiness option"
  sd_sleep_score_delta :: "int option"
  sd_readiness_score_delta :: "int option"

subsection \<open>Stored rows\<close>

text \<open>
  \<^verbatim>\<open>OuraSleep\<close>: one row per sleep segment.  \<open>sl_measurements\<close> stands for the twelve
  measurement columns, \<open>sl_contributors\<close> for the seven \<^verbatim>\<open>contributor_*\<close> columns and
  \<open>sl_readiness\<close> for \<^verbatim>\<open>readiness_score_embedded\<close>, the eight
  \<^verbatim>\<open>readiness_contributor_*\<close> columns and the two \<^verbatim>\<open>readiness_temperature_*\<close> columns.
\<close>

record oura_sleep =
  sl_user_id :: uuid
  sl_oura_id :: string
  sl_day :: date
  sl_bedtime_start :: "instant option"
  sl_bedtime_end :: "instant option"
  sl_total_sleep_duration :: "int option"
  sl_measurements :: sleep_measurements
  sl_sleep_score :: "int option"
  sl_contributors :: sleep_contributors
  sl_sleep_type :: "string option"
  sl_readiness :: detail_readiness
  sl_sleep_score_delta :: "int option"
  sl_readiness_score_delta :: "int option"
  sl_raw_json :: "daily_sleep_item option \<times> sleep_detail"
  sl_created_at :: instant

text \<open>\<^verbatim>\<open>OuraDailySleep\<close>: one row per daily sleep summary.\<close>

record oura_daily_sleep =
  dl_user_id :: uuid
  dl_oura_id :: string
  dl_day :: date
  dl_score :: "int option"
  dl_contributors :: sleep_contributors
  dl_raw_json :: daily_sleep_item
  dl_created_at :: instant

text \<open>
  The seven remaining streams (readiness, activity, stress, SpO2, cardiovascular age,
  resilience, VO2 max) share one shape: an item has an id, a day and a payload \<open>'p\<close> (the
  values that the code reads from it, all of them copied into the row), and the row stores
  the payload next to the raw item.
\<close>

record 'p entity_item =
  en_id :: "string option"
  en_day :: "date parsed"
  en_payload :: 'p

record 'p entity_row =
  er_user_id :: uuid
  er_oura_id :: string
  er_day :: date
  er_payload :: 'p
  er_raw_json :: "'p entity_item"
  er_created_at :: instant

section \<open>Entity reconciler\<close>

subsection \<open>The session\<close>

text \<open>
  The session is created with \<^verbatim>\<open>autoflush=False\<close>: a query sees the persistent rows,
  with the changes made to them in this pass (they are the same objects), but not the objects
  handed to \<^verbatim>\<open>db.add\<close>, which are sent to the database at the commit.  A table in a
  pass is therefore a pair: the persistent rows and the pending new rows.

  \<^verbatim>\<open>scalar_one_or_none\<close> raises when more than one row matches.
\<close>

definition scalar_one_or_none :: "('r \<Rightarrow> bool) \<Rightarrow> 'r list \<Rightarrow> py_error + 'r option" where
  "scalar_one_or_none P rows =
     (case filter P rows of
        [] \<Rightarrow> Inr None
      | [r] \<Rightarrow> Inr (Some r)
      | _ \<Rightarrow> Inl MultipleResultsFound)"

text \<open>Assignments to the attributes of the row(s) selected by \<open>P\<close>.\<close>

definition modify :: "('r \<Rightarrow> bool) \<Rightarrow> ('r \<Rightarrow> 'r) \<Rightarrow> 'r list \<Rightarrow> 'r list" where
  "modify P f rows = map (\<lambda>r. if P r then f r else r) rows"

text \<open>
  The commit inserts the pending rows; the unique constraint on \<^verbatim>\<open>oura_id\<close> rejects a
  pending row whose id is that of another pending row or of a stored row.
\<close>

definition commit_table :: "('r \<Rightarrow> string) \<Rightarrow> 'r list \<Rightarrow> 'r list \<Rightarrow> py_error + 'r list" where
  "commit_table key rows pending =
     (if distinct (map key pending) \<and> set (map key pending) \<inter> set (map key rows) = {}
      then Inr (rows @ pending) else Inl IntegrityError)"

text \<open>A \<^verbatim>\<open>for\<close> loop whose body may raise: the first exception ends the loop.\<close>

fun for_each :: "('s \<Rightarrow> 'a \<Rightarrow> py_error + 's) \<Rightarrow> 's \<Rightarrow> 'a list \<Rightarrow> py_error + 's" where
  "for_each body s [] = Inr s"
| "for_each body s (x # xs) =
     (case body s x of Inl e \<Rightarrow> Inl e | Inr s' \<Rightarrow> for_each body s' xs)"

subsection \<open>Refresh policy\<close>

text \<open>
  \<^verbatim>\<open>force or (force_today and item_date == today) or
  (force_recent_date and item_date and item_date >= force_recent_date)\<close>
\<close>

definition should_force ::
  "bool \<Rightarrow> bool \<Rightarrow> date \<Rightarrow> date option \<Rightarrow> date option \<Rightarrow> bool" where
  "should_force force force_today today force_recent_date item_date =
     (force \<or> (force_today \<and> item_date = Some today) \<or>
      (case force_recent_date of
         None \<Rightarrow> False
       | Some f \<Rightarrow> (case item_date of None \<Rightarrow> False | Some d \<Rightarrow> d \<ge> f)))"

subsection \<open>The streams with the common template\<close>

text \<open>
  \<^verbatim>\<open>_sync_readiness_data\<close>, \<^verbatim>\<open>_sync_activity_data\<close>, \<^verbatim>\<open>_sync_stress_data\<close>,
  \<^verbatim>\<open>_sync_spo2_data\<close>, \<^verbatim>\<open>_sync_cardiovascular_age_data\<close>, \<^verbatim>\<open>_sync_resilience_data\<close>
  and \<^verbatim>\<open>_sync_vo2_max_data\<close> are the same code up to the columns copied.  The state of the
  loop is the table in the session and \<^verbatim>\<open>new_count\<close>.  The clock is read once per pass:
  \<open>today\<close> is \<^verbatim>\<open>today_hk()\<close> and \<open>now\<close> is \<^verbatim>\<open>now_hk()\<close>.
\<close>

definition update_entity_row :: "'p entity_row \<Rightarrow> 'p entity_item \<Rightarrow> date option \<Rightarrow> 'p entity_row" where
  "update_entity_row existing item item_date =
     existing\<lparr>er_day := (case item_date of Some d \<Rightarrow> d | None \<Rightarrow> er_day existing),
              er_payload := en_payload item,
              er_raw_json := item\<rparr>"

definition new_entity_row ::
  "uuid \<Rightarrow> string \<Rightarrow> 'p entity_item \<Rightarrow> date option \<Rightarrow> date \<Rightarrow> instant \<Rightarrow> 'p entity_row" where
  "new_entity_row user_id oura_id item item_date today now =
     \<lparr>er_user_id = user_id, er_oura_id = oura_id,
      er_day = (case item_date of Some d \<Rightarrow> d | None \<Rightarrow> today),
      er_payload = en_payload item, er_raw_json = item, er_created_at = now\<rparr>"

definition sync_entity_item ::
  "uuid \<Rightarrow> bool \<Rightarrow> bool \<Rightarrow> date \<Rightarrow> date option \<Rightarrow> instant
     \<Rightarrow> 'p entity_row list \<times> 'p entity_row list \<times> nat \<Rightarrow> 'p entity_item
     \<Rightarrow> py_error + 'p entity_row list \<times> 'p entity_row list \<times> nat" where
  "sync_entity_item user_id force force_today today force_recent_date now st item =
     (case st of (rows, pending, new_count) \<Rightarrow>
      case en_id item of
        None \<Rightarrow> Inr st
      | Some oura_id \<Rightarrow>
          if oura_id = [] then Inr st
          else
            (case scalar_one_or_none (\<lambda>r. er_oura_id r = oura_id) rows of
               Inl e \<Rightarrow> Inl e
             | Inr existing \<Rightarrow>
                 (case fromisoformat_opt (en_day item) of
                    Inl e \<Rightarrow> Inl e
                  | Inr item_date \<Rightarrow>
                      (case existing of
                         Some ex \<Rightarrow>
                           if \<not> should_force force force_today today force_recent_date item_date
                           then Inr st
                           else Inr (modify (\<lambda>r. er_oura_id r = oura_id)
                                       (\<lambda>r. update_entity_row r item item_date) rows,
                                     pending, new_count)
                       | None \<Rightarrow>
                           Inr (rows,
                                pending @ [new_entity_row user_id oura_id item item_date today now],
                                new_count + 1)))))"

definition sync_entity_data ::
  "uuid \<Rightarrow> 'p entity_item list \<Rightarrow> bool \<Rightarrow> bool \<Rightarrow> date \<Rightarrow> date option \<Rightarrow> instant
     \<Rightarrow> 'p entity_row list
     \<Rightarrow> py_error + 'p entity_row list \<times> 'p entity_row list \<times> nat" where
  "sync_entity_data user_id data force force_today today force_recent_date now rows =
     for_each (sync_entity_item user_id force force_today today force_recent_date now)
       (rows, [], 0) data"

subsection \<open>\<^verbatim>\<open>_sync_daily_sleep_data\<close>\<close>

definition update_daily_sleep_row ::
  "oura_daily_sleep \<Rightarrow> daily_sleep_item \<Rightarrow> date option \<Rightarrow> oura_daily_sleep" where
  "update_daily_sleep_row existing item item_date =
     existing\<lparr>dl_day := (case item_date of Some d \<Rightarrow> d | None \<Rightarrow> dl_day existing),
              dl_score := ds_score item,
              dl_contributors := ds_contributors item,
              dl_raw_json := item\<rparr>"

definition new_daily_sleep_row ::
  "uuid \<Rightarrow> string \<Rightarrow> daily_sleep_item \<Rightarrow> date option \<Rightarrow> date \<Rightarrow> instant \<Rightarrow> oura_daily_sleep" where
  "new_daily_sleep_row user_id oura_id item item_date today now =
     \<lparr>dl_user_id = user_id, dl_oura_id = oura_id,
      dl_day = (case item_date of Some d \<Rightarrow> d | None \<Rightarrow> today),
      dl_score = ds_score item, dl_contributors = ds_contributors item,
      dl_raw_json = item, dl_created_at = now\<rparr>"

text \<open>A change of the daily score by three points or more is significant.\<close>

definition score_change_significant :: "int option \<Rightarrow> int option \<Rightarrow> bool" where
  "score_change_significant old_score new_score =
     (case old_score of
        None \<Rightarrow> False
      | Some old \<Rightarrow> (case new_score of None \<Rightarrow> False | Some new \<Rightarrow> \<bar>new - old\<bar> \<ge> 3))"

definition sync_daily_sleep_item ::
  "uuid \<Rightarrow> bool \<Rightarrow> bool \<Rightarrow> date \<Rightarrow> date option \<Rightarrow> instant
     \<Rightarrow> oura_daily_sleep list \<times> oura_daily_sleep list \<times> nat \<times> bool \<Rightarrow> daily_sleep_item
     \<Rightarrow> py_error + oura_daily_sleep list \<times> oura_daily_sleep list \<times> nat \<times> bool" where
  "sync_daily_sleep_item user_id force force_today today force_recent_date now st item =
     (case st of (rows, pending, new_count, has_significant_change) \<Rightarrow>
      case ds_id item of
        None \<Rightarrow> Inr st
      | Some oura_id \<Rightarrow>
          if oura_id = [] then Inr st
          else
            (case scalar_one_or_none (\<lambda>r. dl_oura_id r = oura_id) rows of
               Inl e \<Rightarrow> Inl e
             | Inr existing \<Rightarrow>
                 (case fromisoformat_opt (ds_day item) of
                    Inl e \<Rightarrow> Inl e
                  | Inr item_date \<Rightarrow>
                      (case existing of
                         Some ex \<Rightarrow>
                           if \<not> should_force force force_today today force_recent_date item_date
                           then Inr st
                           else Inr (modify (\<lambda>r. dl_oura_id r = oura_id)
                                       (\<lambda>r. update_daily_sleep_row r item item_date) rows,
                                     pending, new_count + 1,
                                     has_significant_change \<or>
                                       score_change_significant (dl_score ex) (ds_score item))
                       | None \<Rightarrow>
                           Inr (rows,
                                pending @ [new_daily_sleep_row user_id oura_id item item_date today now],
                                new_count + 1, True)))))"

definition sync_daily_sleep_data ::
  "uuid \<Rightarrow> daily_sleep_item list \<Rightarrow> bool \<Rightarrow> bool \<Rightarrow> date \<Rightarrow> date option \<Rightarrow> instant
     \<Rightarrow> oura_daily_sleep list
     \<Rightarrow> py_error + oura_daily_sleep list \<times> oura_daily_sleep list \<times> nat \<times> bool" where
  "sync_daily_sleep_data user_id sleep_data force force_today today force_recent_date now rows =
     for_each (sync_daily_sleep_item user_id force force_today today force_recent_date now)
       (rows, [], 0, False) sleep_data"

section \<open>Sleep segment reconciler: \<^verbatim>\<open>_sync_sleep_data\<close>\<close>

text \<open>
  \<^verbatim>\<open>bedtime_end.astimezone(hk_tz).date()\<close>: Hong Kong time is UTC+8 (no daylight saving
  since 1979); day 719163 is 1 January 1970.
\<close>

definition hk_date :: "instant \<Rightarrow> date" where
  "hk_date t = 719163 + (t + 8 * 3600) div 86400"

text \<open>
  \<^verbatim>\<open>summary_map\<close>: the daily summaries by their day string, a later summary replacing an
  earlier one of the same day; only truthy days are keys.
\<close>

definition build_summary_map :: "daily_sleep_item list \<Rightarrow> (date parsed \<rightharpoonup> daily_sleep_item)" where
  "build_summary_map sleep_data =
     foldl (\<lambda>m item. if ds_day item \<noteq> Absent then m(ds_day item \<mapsto> item) else m)
       Map.empty sleep_data"

text \<open>\<^verbatim>\<open>summary.get("score")\<close> and \<^verbatim>\<open>summary.get("contributors", {})\<close>, for a summary
  that may be the empty dictionary (\<open>None\<close>).\<close>

definition summary_score :: "daily_sleep_item option \<Rightarrow> int option" where
  "summary_score summary = (case summary of None \<Rightarrow> None | Some s \<Rightarrow> ds_score s)"

definition summary_contributors :: "daily_sleep_item option \<Rightarrow> sleep_contributors" where
  "summary_contributors summary =
     (case summary of None \<Rightarrow> no_contributors | Some s \<Rightarrow> ds_contributors s)"

definition no_readiness :: detail_readiness where
  "no_readiness =
     \<lparr>dr_score = None, dr_contributors = no_readiness_contributors,
      dr_temperature_deviation = None, dr_temperature_trend_deviation = None\<rparr>"

text \<open>
  The checks on an existing row when \<^verbatim>\<open>force\<close> is off (lines 254 to 287): the result is
  \<^verbatim>\<open>(needs_update, item_has_change)\<close>.
\<close>

definition duration_changed :: "int option \<Rightarrow> int option \<Rightarrow> bool" where
  "duration_changed new_duration old_duration =
     (case new_duration of
        None \<Rightarrow> False
      | Some n \<Rightarrow>
          (case old_duration of
             None \<Rightarrow> False
           | Some e \<Rightarrow> n \<noteq> 0 \<and> e \<noteq> 0 \<and> \<bar>n - e\<bar> \<ge> 300))"

definition score_changed :: "oura_sleep \<Rightarrow> sleep_detail \<Rightarrow> daily_sleep_item option \<Rightarrow> bool" where
  "score_changed existing detail summary =
     (if sd_type detail = Some ''long_sleep'' then
        truthy_int (summary_score summary) \<and> truthy_int (sl_sleep_score existing) \<and>
        summary_score summary \<noteq> sl_sleep_score existing
      else
        sd_sleep_score_delta detail \<noteq> None \<and> sl_sleep_score_delta existing \<noteq> None \<and>
        sd_sleep_score_delta detail \<noteq> sl_sleep_score_delta existing)"

definition existing_checks ::
  "bool \<Rightarrow> date \<Rightarrow> date option \<Rightarrow> date option \<Rightarrow> oura_sleep \<Rightarrow> sleep_detail
     \<Rightarrow> daily_sleep_item option \<Rightarrow> bool \<times> bool" where
  "existing_checks force_today today force_recent_date item_date existing detail summary =
     (if sl_total_sleep_duration existing = None then (True, False)
      else
        let forced = should_force False force_today today force_recent_date item_date;
            item_has_change =
              (duration_changed (jget (sd_total_sleep_duration detail))
                 (sl_total_sleep_duration existing) \<or>
               score_changed existing detail summary)
        in (forced \<or> item_has_change, item_has_change))"

text \<open>The score written to \<^verbatim>\<open>sleep_score\<close>, when one is written.\<close>

definition segment_score :: "sleep_detail \<Rightarrow> daily_sleep_item option \<Rightarrow> int option option" where
  "segment_score detail summary =
     (if sd_type detail = Some ''long_sleep'' \<and> truthy_int (summary_score summary)
      then Some (summary_score summary)
      else (case sd_readiness detail of None \<Rightarrow> None | Some r \<Rightarrow> Some (dr_score r)))"

definition update_sleep_row ::
  "oura_sleep \<Rightarrow> sleep_detail \<Rightarrow> daily_sleep_item option \<Rightarrow> date
     \<Rightarrow> instant option \<Rightarrow> instant option \<Rightarrow> oura_sleep" where
  "update_sleep_row existing detail summary sleep_day bedtime_start bedtime_end =
     existing\<lparr>sl_day := sleep_day,
              sl_bedtime_start := bedtime_start,
              sl_bedtime_end := bedtime_end,
              sl_total_sleep_duration := jget (sd_total_sleep_duration detail),
              sl_measurements := sd_measurements detail,
              sl_sleep_score :=
                (case segment_score detail summary of
                   None \<Rightarrow> sl_sleep_score existing | Some v \<Rightarrow> v),
              sl_contributors := summary_contributors summary,
              sl_sleep_type := sd_type detail,
              sl_readiness :=
                (case sd_readiness detail of None \<Rightarrow> sl_readiness existing | Some r \<Rightarrow> r),
              sl_sleep_score_delta := sd_sleep_score_delta detail,
              sl_readiness_score_delta := sd_readiness_score_delta detail,
              sl_raw_json := (summary, detail)\<rparr>"

definition new_sleep_row ::
  "uuid \<Rightarrow> string \<Rightarrow> sleep_detail \<Rightarrow> daily_sleep_item option \<Rightarrow> date
     \<Rightarrow> instant option \<Rightarrow> instant option \<Rightarrow> instant \<Rightarrow> oura_sleep" where
  "new_sleep_row user_id detail_id detail summary sleep_day bedtime_start bedtime_end now =
     \<lparr>sl_user_id = user_id, sl_oura_id = detail_id, sl_day = sleep_day,
      sl_bedtime_start = bedtime_start, sl_bedtime_end = bedtime_end,
      sl_total_sleep_duration = jget (sd_total_sleep_duration detail),
      sl_measurements = sd_measurements detail,
      sl_sleep_score = (case segment_score detail summary of None \<Rightarrow> None | Some v \<Rightarrow> v),
      sl_contributors = summary_contributors summary,
      sl_sleep_type = sd_type detail,
      sl_readiness = (case sd_readiness detail of None \<Rightarrow> no_readiness | Some r \<Rightarrow> r),
      sl_sleep_score_delta = sd_sleep_score_delta detail,
      sl_readiness_score_delta = sd_readiness_score_delta detail,
      sl_raw_json = (summary, detail),
      sl_created_at = now\<rparr>"

text \<open>
  \<^verbatim>\<open>summary_map.get(day, {}) if sleep_type == "long_sleep" else {}\<close>: only the primary
  sleep is given the summary of its day.
\<close>

definition summary_for ::
  "(date parsed \<rightharpoonup> daily_sleep_item) \<Rightarrow> sleep_detail \<Rightarrow> daily_sleep_item option" where
  "summary_for summary_map detail =
     (if sd_type detail = Some ''long_sleep'' then summary_map (sd_day detail) else None)"

text \<open>
  The day a segment belongs to (lines 305 to 309): the Hong Kong date of the end of the
  sleep, else the vendor's day, else today.
\<close>

definition sleep_day_of :: "instant option \<Rightarrow> date option \<Rightarrow> date \<Rightarrow> date" where
  "sleep_day_of bedtime_end item_date today =
     (case bedtime_end of
        Some t \<Rightarrow> hk_date t
      | None \<Rightarrow> (case item_date of Some d \<Rightarrow> d | None \<Rightarrow> today))"

text \<open>
  One iteration of the loop over \<^verbatim>\<open>sleep_details\<close>.  The state is the table in the
  session, \<^verbatim>\<open>new_count\<close> and \<^verbatim>\<open>has_significant_change\<close>.  Two expressions raise
  \<^verbatim>\<open>TypeError\<close> on a \<^verbatim>\<open>null\<close> duration: the comparison \<^verbatim>\<open>new_duration >= 300\<close> of a
  new segment, and \<^verbatim>\<open>detail.get('total_sleep_duration', 0)//60\<close> in the log line of a
  changed segment.
\<close>

definition sync_sleep_item ::
  "uuid \<Rightarrow> (date parsed \<rightharpoonup> daily_sleep_item) \<Rightarrow> bool \<Rightarrow> bool \<Rightarrow> date \<Rightarrow> date option \<Rightarrow> instant
     \<Rightarrow> oura_sleep list \<times> oura_sleep list \<times> nat \<times> bool \<Rightarrow> sleep_detail
     \<Rightarrow> py_error + oura_sleep list \<times> oura_sleep list \<times> nat \<times> bool" where
  "sync_sleep_item user_id summary_map force force_today today force_recent_date now st detail =
     (case st of (rows, pending, new_count, has_significant_change) \<Rightarrow>
      case sd_id detail of
        None \<Rightarrow> Inr st
      | Some detail_id \<Rightarrow>
          if detail_id = [] then Inr st
          else
            (case scalar_one_or_none (\<lambda>r. sl_oura_id r = detail_id) rows of
               Inl e \<Rightarrow> Inl e
             | Inr existing \<Rightarrow>
                 let summary = summary_for summary_map detail in
                 (case fromisoformat_opt (sd_day detail) of
                    Inl e \<Rightarrow> Inl e
                  | Inr item_date \<Rightarrow>
                      let (needs_update, item_has_change) =
                            (case existing of
                               None \<Rightarrow> (False, False)
                             | Some ex \<Rightarrow>
                                 if force then (False, False)
                                 else existing_checks force_today today force_recent_date
                                        item_date ex detail summary)
                      in
                      if existing \<noteq> None \<and> \<not> force \<and> \<not> needs_update then Inr st
                      else
                        (case fromisoformat_opt (sd_bedtime_start detail) of
                           Inl e \<Rightarrow> Inl e
                         | Inr bedtime_start \<Rightarrow>
                             (case fromisoformat_opt (sd_bedtime_end detail) of
                                Inl e \<Rightarrow> Inl e
                              | Inr bedtime_end \<Rightarrow>
                                  let sleep_day = sleep_day_of bedtime_end item_date today in
                                  (case existing of
                                     Some ex \<Rightarrow>
                                       if needs_update \<and> item_has_change \<and>
                                          sd_total_sleep_duration detail = Null
                                       then Inl TypeError
                                       else
                                         Inr (modify (\<lambda>r. sl_oura_id r = detail_id)
                                                (\<lambda>r. update_sleep_row r detail summary sleep_day
                                                        bedtime_start bedtime_end) rows,
                                              pending,
                                              (if needs_update then new_count + 1 else new_count),
                                              has_significant_change \<or>
                                                (needs_update \<and> item_has_change))
                                   | None \<Rightarrow>
                                       (case sd_total_sleep_duration detail of
                                          Null \<Rightarrow> Inl TypeError
                                        | Missing \<Rightarrow>
                                            Inr (rows,
                                                 pending @ [new_sleep_row user_id detail_id detail
                                                              summary sleep_day bedtime_start
                                                              bedtime_end now],
                                                 new_count + 1,
                                                 has_significant_change \<or> (0::int) \<ge> 300)
                                        | Val new_duration \<Rightarrow>
                                            Inr (rows,
                                                 pending @ [new_sleep_row user_id detail_id detail
                                                              summary sleep_day bedtime_start
                                                              bedtime_end now],
                                                 new_count + 1,
                                                 has_significant_change \<or> new_duration \<ge> 300))))))))"

definition sync_sleep_data ::
  "uuid \<Rightarrow> daily_sleep_item list \<Rightarrow> sleep_detail list \<Rightarrow> bool \<Rightarrow> bool \<Rightarrow> date \<Rightarrow> date option
     \<Rightarrow> instant \<Rightarrow> oura_sleep list
     \<Rightarrow> py_error + oura_sleep list \<times> oura_sleep list \<times> nat \<times> bool" where
  "sync_sleep_data user_id sleep_data sleep_details force force_today today force_recent_date
     now rows =
     for_each (sync_sleep_item user_id (build_summary_map sleep_data) force force_today today
                 force_recent_date now)
       (rows, [], 0, False) sleep_details"

section \<open>One pass for one user: \<^verbatim>\<open>sync_user_data\<close>\<close>

text \<open>
  The store: the user's authorisation row and the nine entity tables.  The payloads of the
  seven streams with the common template share the type \<open>'p\<close>.
\<close>

record 'p oura_db =
  db_auth :: "oura_auth option"
  db_sleep :: "oura_sleep list"
  db_daily_sleep :: "oura_daily_sleep list"
  db_readiness :: "'p entity_row list"
  db_activity :: "'p entity_row list"
  db_stress :: "'p entity_row list"
  db_spo2 :: "'p entity_row list"
  db_cardiovascular_age :: "'p entity_row list"
  db_resilience :: "'p entity_row list"
  db_vo2_max :: "'p entity_row list"

text \<open>The dictionary returned by \<^verbatim>\<open>get_all_daily_data\<close>, which never raises.\<close>

record 'p all_data =
  ad_sleep :: "daily_sleep_item list"
  ad_sleep_details :: "sleep_detail list"
  ad_readiness :: "'p entity_item list"
  ad_activity :: "'p entity_item list"
  ad_stress :: "'p entity_item list"
  ad_spo2 :: "'p entity_item list"
  ad_cardiovascular_age :: "'p entity_item list"
  ad_resilience :: "'p entity_item list"
  ad_vo2_max :: "'p entity_item list"

record sync_stats =
  st_sleep :: nat
  st_daily_sleep :: nat
  st_readiness :: nat
  st_activity :: nat
  st_stress :: nat
  st_spo2 :: nat
  st_cardiovascular_age :: nat
  st_resilience :: nat
  st_vo2_max :: nat

definition bind_err :: "py_error + 'a \<Rightarrow> ('a \<Rightarrow> py_error + 'b) \<Rightarrow> py_error + 'b" where
  "bind_err m f = (case m of Inl e \<Rightarrow> Inl e | Inr v \<Rightarrow> f v)"

text \<open>
  Lines 115 to 173 of \<^verbatim>\<open>sync_user_data\<close>: the nine streams are reconciled one after the
  other in the session, the authorisation row gets its timestamps, and one commit writes
  everything.  The result is the store after the commit, the statistics and
  \<^verbatim>\<open>has_significant_sleep_change\<close>.  An exception anywhere leaves the store as it was
  (the handler rolls the session back and raises again).
\<close>

definition sync_streams ::
  "uuid \<Rightarrow> 'p all_data \<Rightarrow> bool \<Rightarrow> bool \<Rightarrow> date \<Rightarrow> date option \<Rightarrow> instant \<Rightarrow> 'p oura_db
     \<Rightarrow> py_error + 'p oura_db \<times> sync_stats \<times> bool" where
  "sync_streams user_id data force force_today today force_recent_date now db =
     bind_err (sync_sleep_data user_id (ad_sleep data) (ad_sleep_details data) force force_today
                 today force_recent_date now (db_sleep db))
       (\<lambda>(sleep_rows, sleep_new, n_sleep, has_significant_sleep_change).
     bind_err (sync_daily_sleep_data user_id (ad_sleep data) force force_today today
                 force_recent_date now (db_daily_sleep db))
       (\<lambda>(daily_rows, daily_new, n_daily, has_daily_sleep_change).
     bind_err (sync_entity_data user_id (ad_readiness data) force force_today today
                 force_recent_date now (db_readiness db))
       (\<lambda>(readiness_rows, readiness_new, n_readiness).
     bind_err (sync_entity_data user_id (ad_activity data) force force_today today
                 force_recent_date now (db_activity db))
       (\<lambda>(activity_rows, activity_new, n_activity).
     bind_err (sync_entity_data user_id (ad_stress data) force force_today today
                 force_recent_date now (db_stress db))
       (\<lambda>(stress_rows, stress_new, n_stress).
     bind_err (sync_entity_data user_id (ad_spo2 data) force force_today today
                 force_recent_date now (db_spo2 db))
       (\<lambda>(spo2_rows, spo2_new, n_spo2).
     bind_err (sync_entity_data user_id (ad_cardiovascular_age data) force force_today today
                 force_recent_date now (db_cardiovascular_age db))
       (\<lambda>(cv_rows, cv_new, n_cv).
     bind_err (sync_entity_data user_id (ad_resilience data) force force_today today
                 force_recent_date now (db_resilience db))
       (\<lambda>(resilience_rows, resilience_new, n_resilience).
     bind_err (sync_entity_data user_id (ad_vo2_max data) force force_today today
                 force_recent_date now (db_vo2_max db))
       (\<lambda>(vo2_rows, vo2_new, n_vo2).
     bind_err (commit_table sl_oura_id sleep_rows sleep_new) (\<lambda>sleep'.
     bind_err (commit_table dl_oura_id daily_rows daily_new) (\<lambda>daily'.
     bind_err (commit_table er_oura_id readiness_rows readiness_new) (\<lambda>readiness'.
     bind_err (commit_table er_oura_id activity_rows activity_new) (\<lambda>activity'.
     bind_err (commit_table er_oura_id stress_rows stress_new) (\<lambda>stress'.
     bind_err (commit_table er_oura_id spo2_rows spo2_new) (\<lambda>spo2'.
     bind_err (commit_table er_oura_id cv_rows cv_new) (\<lambda>cv'.
     bind_err (commit_table er_oura_id resilience_rows resilience_new) (\<lambda>resilience'.
     bind_err (commit_table er_oura_id vo2_rows vo2_new) (\<lambda>vo2'.
       Inr (\<lparr>db_auth = map_option (\<lambda>a. a\<lparr>last_sync_at := Some now, updated_at := now\<rparr>)
                          (db_auth db),
             db_sleep = sleep', db_daily_sleep = daily', db_readiness = readiness',
             db_activity = activity', db_stress = stress', db_spo2 = spo2',
             db_cardiovascular_age = cv', db_resilience = resilience', db_vo2_max = vo2'\<rparr>,
            \<lparr>st_sleep = n_sleep, st_daily_sleep = n_daily, st_readiness = n_readiness,
             st_activity = n_activity, st_stress = n_stress, st_spo2 = n_spo2,
             st_cardiovascular_age = n_cv, st_resilience = n_resilience, st_vo2_max = n_vo2\<rparr>,
            has_significant_sleep_change \<or> has_daily_sleep_change)))))))))))))))))))"

text \<open>
  \<^verbatim>\<open>sync_user_data\<close>.  \<open>refresh\<close> is the vendor's token refresh, \<open>fetch\<close> is
  \<^verbatim>\<open>get_all_daily_data\<close> (access token, start date, end date).  The result is the store
  afterwards and either the exception raised or the statistics (\<open>None\<close> for the empty
  dictionary returned when there is no access token).
\<close>

definition sync_user_data ::
  "uuid \<Rightarrow> int \<Rightarrow> bool \<Rightarrow> bool \<Rightarrow> int \<Rightarrow> instant \<Rightarrow> (string \<Rightarrow> token_data option)
     \<Rightarrow> (string \<Rightarrow> date \<Rightarrow> date \<Rightarrow> 'p all_data) \<Rightarrow> 'p oura_db
     \<Rightarrow> 'p oura_db \<times> (py_error + sync_stats option)" where
  "sync_user_data user_id days force force_today force_recent_days now refresh fetch db =
     (case get_access_token
             (case db_auth db of None \<Rightarrow> None | Some a \<Rightarrow> if is_active a then Some a else None)
             now refresh of
        (token, auth', refreshed) \<Rightarrow>
          let db0 = (case auth' of None \<Rightarrow> db | Some a \<Rightarrow> db\<lparr>db_auth := Some a\<rparr>) in
          if \<not> truthy_str token then (db0, Inr None)
          else
            let today = hk_date now;
                end_date = today + 1;
                start_date = today - (days - 1);
                data = fetch (case token of Some t \<Rightarrow> t | None \<Rightarrow> []) start_date end_date;
                force_recent_date =
                  (if force_recent_days > 0 then Some (today - (force_recent_days - 1)) else None)
            in
            (case sync_streams user_id data force force_today today force_recent_date now db0 of
               Inl e \<Rightarrow> (db0, Inl e)
             | Inr (db', stats, has_significant_sleep_change) \<Rightarrow> (db', Inr (Some stats))))"

section \<open>Arithmetic of the derived values\<close>

text \<open>
  Python floats are modelled by exact rationals.  \<^verbatim>\<open>int(x)\<close> truncates towards zero.
\<close>

definition py_int :: "rat \<Rightarrow> int" where
  "py_int x = (if x \<ge> 0 then \<lfloor>x\<rfloor> else \<lceil>x\<rceil>)"

text \<open>\<^verbatim>\<open>numpy.mean\<close> of a non-empty list.\<close>

definition mean :: "rat list \<Rightarrow> rat" where
  "mean xs = sum_list xs / of_nat (length xs)"

text \<open>
  \<^verbatim>\<open>numpy.percentile(xs, q)\<close> with the default linear interpolation: the value at
  position \<open>q / 100 * (n - 1)\<close> of the sorted list, interpolated between its two neighbours.
\<close>

definition percentile :: "rat list \<Rightarrow> rat \<Rightarrow> rat" where
  "percentile xs q =
     (let s = sort xs;
          pos = q / 100 * of_nat (length xs - 1);
          k = nat \<lfloor>pos\<rfloor>;
          frac = pos - of_int \<lfloor>pos\<rfloor>
      in if k + 1 < length xs then s ! k + frac * (s ! (k + 1) - s ! k)
         else s ! (length xs - 1))"

section \<open>Grouped sleep data: \<^verbatim>\<open>get_grouped_sleep_data\<close>\<close>




text \<open>\<^verbatim>\<open>x or 0\<close>\<close>

definition or0 :: "int option \<Rightarrow> int" where
  "or0 x = (case x of None \<Rightarrow> 0 | Some v \<Rightarrow> v)"







section \<open>Sleep-debt estimator: \<^verbatim>\<open>SleepMetricsService\<close>\<close>

subsection \<open>\<^verbatim>\<open>_calculate_baseline_sleep\<close>\<close>

text \<open>\<^verbatim>\<open>total_sleep_duration / 60\<close>: the duration of a row in minutes.\<close>

definition actual_minutes :: "oura_sleep \<Rightarrow> rat" where
  "actual_minutes r = of_int (or0 (sl_total_sleep_duration r)) / 60"

text \<open>
  The \<^verbatim>\<open>WHERE\<close> clause of the baseline query: rows of the user in the 90 days up to the
  target date whose duration is between 3 and 12 hours.
\<close>

definition baseline_query :: "uuid \<Rightarrow> date \<Rightarrow> oura_sleep \<Rightarrow> bool" where
  "baseline_query user_id target_date r =
     (sl_user_id r = user_id \<and> sl_day r \<ge> target_date - 89 \<and> sl_day r \<le> target_date \<and>
      (case sl_total_sleep_duration r of
         None \<Rightarrow> False
       | Some s \<Rightarrow> s \<ge> 180 * 60 \<and> s \<le> 720 * 60))"

definition baseline_durations :: "uuid \<Rightarrow> date \<Rightarrow> oura_sleep list \<Rightarrow> rat list" where
  "baseline_durations user_id target_date rows =
     map actual_minutes (filter (baseline_query user_id target_date) rows)"

definition iqr_filter :: "rat list \<Rightarrow> rat list" where
  "iqr_filter durations =
     (let q1 = percentile durations 25;
          q3 = percentile durations 75;
          iqr = q3 - q1;
          lower_bound = q1 - 3 / 2 * iqr;
          upper_bound = q3 + 3 / 2 * iqr
      in filter (\<lambda>d. lower_bound \<le> d \<and> d \<le> upper_bound) durations)"

definition calculate_baseline_sleep :: "uuid \<Rightarrow> date \<Rightarrow> oura_sleep list \<Rightarrow> int option" where
  "calculate_baseline_sleep user_id target_date rows =
     (let durations = baseline_durations user_id target_date rows
      in if length durations < 30 then None
         else
           let filtered_durations = iqr_filter durations;
               filtered_durations' =
                 (if length filtered_durations < 20 then durations else filtered_durations)
           in Some (py_int (mean filtered_durations')))"

subsection \<open>\<^verbatim>\<open>calculate_sleep_debt\<close>\<close>

text \<open>
  The records of the 14 days up to the target date, most recent day first.  Rows of the same
  day, which the database may return in any order, are taken in the order of the table.
\<close>

definition debt_query :: "uuid \<Rightarrow> date \<Rightarrow> oura_sleep \<Rightarrow> bool" where
  "debt_query user_id target_date r =
     (sl_user_id r = user_id \<and> sl_day r \<ge> target_date - 13 \<and> sl_day r \<le> target_date \<and>
      sl_total_sleep_duration r \<noteq> None)"

definition debt_records :: "uuid \<Rightarrow> date \<Rightarrow> oura_sleep list \<Rightarrow> oura_sleep list" where
  "debt_records user_id target_date rows =
     sort_key (\<lambda>r. - sl_day r) (filter (debt_query user_id target_date) rows)"

text \<open>\<^verbatim>\<open>weight = 1.0 - (i * 0.5 / 13)\<close>\<close>

definition weight :: "nat \<Rightarrow> rat" where
  "weight i = 1 - of_nat i * (1 / 2) / 13"

text \<open>
  The loop over \<^verbatim>\<open>enumerate(sleep_records)\<close>, from index \<open>i\<close> on, with the accumulators
  \<^verbatim>\<open>weighted_debt\<close> and \<^verbatim>\<open>total_weight\<close>.
\<close>

fun debt_loop :: "int \<Rightarrow> nat \<Rightarrow> oura_sleep list \<Rightarrow> rat \<times> rat \<Rightarrow> rat \<times> rat" where
  "debt_loop baseline_minutes i [] acc = acc"
| "debt_loop baseline_minutes i (r # rs) (weighted_debt, total_weight) =
     (let daily_debt = of_int baseline_minutes - actual_minutes r
      in debt_loop baseline_minutes (i + 1) rs
           (weighted_debt + daily_debt * weight i, total_weight + weight i))"

definition weighted_sleep_debt :: "int \<Rightarrow> oura_sleep list \<Rightarrow> int" where
  "weighted_sleep_debt baseline_minutes sleep_records =
     (case debt_loop baseline_minutes 0 sleep_records (0, 0) of
        (weighted_debt, total_weight) \<Rightarrow>
          if total_weight > 0 then py_int (weighted_debt / total_weight) else 0)"

definition debt_trend_of :: "oura_sleep list \<Rightarrow> string" where
  "debt_trend_of sleep_records =
     (if length sleep_records \<ge> 7 then
        let recent_avg = mean (map actual_minutes (take 3 sleep_records));
            previous_avg = mean (map actual_minutes (take 4 (drop 3 sleep_records)))
        in if recent_avg > previous_avg + 15 then ''improving''
           else if recent_avg < previous_avg - 15 then ''worsening''
           else ''stable''
      else ''stable'')"

definition balance_score_of :: "int \<Rightarrow> int" where
  "balance_score_of sleep_debt_minutes =
     (if sleep_debt_minutes \<le> - 60 then 100
      else if sleep_debt_minutes \<ge> 120 then 0
      else if sleep_debt_minutes \<le> 0
        then 85 + py_int (of_int \<bar>sleep_debt_minutes\<bar> / 60 * 15)
        else max 0 (85 - py_int (of_int sleep_debt_minutes / 120 * 85)))"

definition data_quality_of :: "nat \<Rightarrow> string" where
  "data_quality_of n = (if n \<ge> 12 then ''good'' else if n \<ge> 8 then ''moderate'' else ''limited'')"

record sleep_debt_result =
  sleep_debt_minutes :: "int option"
  baseline_sleep_minutes :: int
  recent_14d_avg_minutes :: "int option"
  debt_trend :: string
  sleep_balance_score :: "int option"
  data_quality :: string

text \<open>\<open>None\<close> is the result when there is no baseline.\<close>

definition calculate_sleep_debt :: "uuid \<Rightarrow> date \<Rightarrow> oura_sleep list \<Rightarrow> sleep_debt_result option" where
  "calculate_sleep_debt user_id target_date rows =
     (case calculate_baseline_sleep user_id target_date rows of
        None \<Rightarrow> None
      | Some baseline_minutes \<Rightarrow>
          let sleep_records = debt_records user_id target_date rows
          in if length sleep_records < 5 then
               Some \<lparr>sleep_debt_minutes = None, baseline_sleep_minutes = baseline_minutes,
                     recent_14d_avg_minutes = None, debt_trend = ''unknown'',
                     sleep_balance_score = None, data_quality = ''insufficient''\<rparr>
             else
               let debt = weighted_sleep_debt baseline_minutes sleep_records
               in Some \<lparr>sleep_debt_minutes = Some debt,
                        baseline_sleep_minutes = baseline_minutes,
                        recent_14d_avg_minutes =
                          Some (py_int (mean (map actual_minutes sleep_records))),
                        debt_trend = debt_trend_of sleep_records,
                        sleep_balance_score = Some (balance_score_of debt),
                        data_quality = data_quality_of (length sleep_records)\<rparr>)"

section \<open>Example data\<close>

text \<open>Payloads and rows with the given fields and nothing else, for concrete instances.\<close>

definition no_measurements :: sleep_measurements where
  "no_measurements =
     \<lparr>m_deep_sleep_duration = None, m_light_sleep_duration = None, m_rem_sleep_duration = None,
      m_awake_time = None, m_average_heart_rate = None, m_lowest_heart_rate = None,
      m_average_hrv = None, m_average_breath = None, m_efficiency = None, m_time_in_bed = None,
      m_latency = None, m_restless_periods = None\<rparr>"

definition example_segment ::
  "string \<Rightarrow> string \<Rightarrow> date parsed \<Rightarrow> int jfield \<Rightarrow> instant parsed \<Rightarrow> sleep_detail" where
  "example_segment i ty d dur bedtime_end =
     \<lparr>sd_id = Some i, sd_day = d, sd_type = Some ty, sd_total_sleep_duration = dur,
      sd_bedtime_start = Absent, sd_bedtime_end = bedtime_end, sd_measurements = no_measurements,
      sd_readiness = None, sd_sleep_score_delta = None, sd_readiness_score_delta = None\<rparr>"

definition example_summary :: "string \<Rightarrow> date parsed \<Rightarrow> int option \<Rightarrow> daily_sleep_item" where
  "example_summary i d score =
     \<lparr>ds_id = Some i, ds_day = d, ds_score = score, ds_contributors = no_contributors\<rparr>"


definition example_row ::
  "uuid \<Rightarrow> string \<Rightarrow> string \<Rightarrow> date \<Rightarrow> int option \<Rightarrow> int option \<Rightarrow> int option \<Rightarrow> oura_sleep" where
  "example_row u i ty d dur score delta =
     \<lparr>sl_user_id = u, sl_oura_id = i, sl_day = d, sl_bedtime_start = None, sl_bedtime_end = None,
      sl_total_sleep_duration = dur, sl_measurements = no_measurements, sl_sleep_score = score,
      sl_contributors = no_contributors, sl_sleep_type = Some ty, sl_readiness = no_readiness,
      sl_sleep_score_delta = delta, sl_readiness_score_delta = None,
      sl_raw_json = (None, example_segment i ty Absent Missing Absent), sl_created_at = 0\<rparr>"

text \<open>Primary sleep rows of user 1 with the given durations (in seconds), all on one day.\<close>

definition example_nights :: "date \<Rightarrow> int list \<Rightarrow> oura_sleep list" where
  "example_nights d durations =
     map (\<lambda>s. example_row 1 ''night'' ''long_sleep'' d (Some s) None None) durations"

definition empty_db :: "int oura_db" where
  "empty_db =
     \<lparr>db_auth = None, db_sleep = [], db_daily_sleep = [], db_readiness = [], db_activity = [],
      db_stress = [], db_spo2 = [], db_cardiovascular_age = [], db_resilience = [],
      db_vo2_max = []\<rparr>"

definition empty_data :: "int all_data" where
  "empty_data =
     \<lparr>ad_sleep = [], ad_sleep_details = [], ad_readiness = [], ad_activity = [], ad_stress = [],
      ad_spo2 = [], ad_cardiovascular_age = [], ad_resilience = [], ad_vo2_max = []\<rparr>"

definition near_expiry_auth :: oura_auth where
  "near_expiry_auth =
     \<lparr>auth_user_id = 1, access_token = Some ''old'', refresh_token = Some ''r1'',
      token_expires_at = Some (1000 + 120), is_active = True, last_sync_at = None,
      updated_at = 0\<rparr>"

definition fresh_token :: token_data where
  "fresh_token =
     \<lparr>td_access_token = Some ''new'', td_refresh_token = Missing, td_expires_in = None\<rparr>"

text \<open>
  Thirty durations (in seconds) of which the interquartile filter keeps sixteen: seven of 3
  hours, one of 399 minutes, fourteen of 400 minutes, one of 401 minutes and seven of 12 hours.
\<close>

definition outlier_durations :: "int list" where
  "outlier_durations =
     replicate 7 10800 @ [23940] @ replicate 14 24000 @ [24060] @ replicate 7 43200"


section \<open>Properties\<close>

subsection \<open>Auxiliary facts\<close>



lemma scalar_SomeD: "scalar_one_or_none P rows = Inr (Some x) \<Longrightarrow> filter P rows = [x]"
  by (auto simp: scalar_one_or_none_def split: list.splits)


lemma in_modify:
  "r \<in> set (modify P f rows) \<longleftrightarrow>
     (r \<in> set rows \<and> \<not> P r) \<or> (\<exists>r0 \<in> set rows. P r0 \<and> r = f r0)"
  by (auto simp: modify_def)





subsection \<open>Significance of a new segment\<close>



subsection \<open>A record that cannot be parsed\<close>

text \<open>
  C6.  A pass whose daily sleep stream holds a record with an unparseable day, followed by a
  well-formed record: \<^verbatim>\<open>date.fromisoformat\<close> raises, nothing in the loop catches it, the
  handler of \<^verbatim>\<open>sync_user_data\<close> rolls back and raises again.  The pass ends with
  \<^verbatim>\<open>ValueError\<close> and the store is as before: the well-formed record is not stored.
\<close>

theorem malformed_day_aborts_pass:
  "sync_user_data 1 7 False False 0 1000 (\<lambda>rt. None)
     (\<lambda>tok start_date end_date.
        empty_data\<lparr>ad_sleep := [example_summary ''a'' Malformed (Some 80),
                                 example_summary ''b'' (Parsed 719163) (Some 75)]\<rparr>)
     (empty_db\<lparr>db_auth := Some near_expiry_auth\<rparr>)
   = (empty_db\<lparr>db_auth := Some near_expiry_auth\<rparr>, Inl ValueError)"
  by (simp add: sync_user_data_def get_access_token_def near_expiry_auth_def empty_db_def
        empty_data_def sync_streams_def sync_sleep_data_def sync_daily_sleep_data_def
        sync_daily_sleep_item_def example_summary_def scalar_one_or_none_def bind_err_def)

subsection \<open>A token close to its expiry\<close>

text \<open>
  C9.  A stored token that expires 120 seconds from now: \<^verbatim>\<open>get_access_token\<close> compares
  the expiry with the present instant, with no margin, so it returns the stored token and
  does not call the refresh endpoint (which would have returned a new token).
\<close>

theorem near_expiry_token_not_refreshed:
  "get_access_token (Some near_expiry_auth) 1000 (\<lambda>rt. Some fresh_token)
     = (Some ''old'', Some near_expiry_auth, False)"
  by (simp add: get_access_token_def near_expiry_auth_def)

subsection \<open>Day attribution\<close>

lemma sl_upd [simp]:
  "sl_oura_id (update_sleep_row r d s sd bs be) = sl_oura_id r"
  "sl_day (update_sleep_row r d s sd bs be) = sd"
  by (simp_all add: update_sleep_row_def)

lemma sl_new [simp]:
  "sl_oura_id (new_sleep_row u i d s sd bs be now) = i"
  "sl_day (new_sleep_row u i d s sd bs be now) = sd"
  by (simp_all add: new_sleep_row_def)







subsection \<open>Insertion and the refresh policy\<close>




subsection \<open>Score decomposition\<close>






lemma or0_simps [simp]: "or0 None = 0" "or0 (Some v) = v"
  by (simp_all add: or0_def)





subsection \<open>Sleep-need baseline\<close>

lemma sum_list_bounds:
  fixes xs :: "rat list"
  assumes "\<forall>x\<in>set xs. a \<le> x \<and> x \<le> b"
  shows "a * of_nat (length xs) \<le> sum_list xs \<and> sum_list xs \<le> b * of_nat (length xs)"
  using assms by (induction xs) (auto simp: algebra_simps)

lemma mean_bounds:
  fixes xs :: "rat list"
  assumes "xs \<noteq> []" "\<forall>x\<in>set xs. a \<le> x \<and> x \<le> b"
  shows "a \<le> mean xs \<and> mean xs \<le> b"
proof -
  have n: "(0::rat) < of_nat (length xs)" using assms(1) by simp
  from sum_list_bounds [OF assms(2)] n show ?thesis
    unfolding mean_def by (simp add: pos_le_divide_eq pos_divide_le_eq)
qed

lemma py_int_bounds:
  assumes "of_int a \<le> x" "x \<le> of_int b" "0 \<le> a"
  shows "a \<le> py_int x \<and> py_int x \<le> b"
proof -
  have "0 \<le> x" using assms(1,3) by (meson of_int_0_le_iff order_trans)
  then show ?thesis using assms by (simp add: py_int_def le_floor_iff floor_le_iff)
qed

lemma baseline_query_minutes:
  "baseline_query u t r \<Longrightarrow> 180 \<le> actual_minutes r \<and> actual_minutes r \<le> 720"
  by (auto simp: baseline_query_def actual_minutes_def or0_def split: option.splits)

lemma baseline_durations_range:
  "\<forall>x\<in>set (baseline_durations u t rows). 180 \<le> x \<and> x \<le> 720"
  by (auto simp: baseline_durations_def dest: baseline_query_minutes)

lemma iqr_filter_subset: "set (iqr_filter ds) \<subseteq> set ds"
  by (auto simp: iqr_filter_def Let_def)

lemma length_baseline_durations:
  "length (baseline_durations u t rows) = length (filter (baseline_query u t) rows)"
  by (simp add: baseline_durations_def)

lemma calculate_baseline_sleep_range:
  assumes "calculate_baseline_sleep u t rows = Some b"
  shows "180 \<le> b \<and> b \<le> 720"
proof -
  let ?ds = "baseline_durations u t rows"
  let ?fs = "if length (iqr_filter ?ds) < 20 then ?ds else iqr_filter ?ds"
  from assms have len: "30 \<le> length ?ds" and b: "b = py_int (mean ?fs)"
    by (auto simp: calculate_baseline_sleep_def Let_def split: if_splits)
  have ne: "?fs \<noteq> []" using len by auto
  have "\<forall>x\<in>set ?fs. 180 \<le> x \<and> x \<le> 720"
    using baseline_durations_range [of u t rows] iqr_filter_subset [of ?ds] by auto
  from mean_bounds [OF ne this] have "of_int 180 \<le> mean ?fs" "mean ?fs \<le> of_int 720" by simp_all
  from py_int_bounds [OF this] show ?thesis unfolding b by simp
qed

text \<open>
  C7.  With exactly 29 rows matching the baseline query (the user's rows of the 90 days up to
  the target date with a duration between 3 and 12 hours) there is no baseline; with exactly 30
  there is one, between 180 and 720 minutes; and when the interquartile filter keeps fewer
  than 20 of at least 30 durations, the baseline is the truncated mean of all of them.
\<close>

theorem baseline_boundary_and_fallback:
  "(length (filter (baseline_query u t) rows) = 29 \<longrightarrow> calculate_baseline_sleep u t rows = None) \<and>
   (length (filter (baseline_query u t) rows) = 30 \<longrightarrow>
      (\<exists>b. calculate_baseline_sleep u t rows = Some b \<and> 180 \<le> b \<and> b \<le> 720)) \<and>
   (30 \<le> length (filter (baseline_query u t) rows) \<and>
    length (iqr_filter (baseline_durations u t rows)) < 20 \<longrightarrow>
      calculate_baseline_sleep u t rows = Some (py_int (mean (baseline_durations u t rows))))"
proof (intro conjI impI)
  assume "length (filter (baseline_query u t) rows) = 29"
  then show "calculate_baseline_sleep u t rows = None"
    by (simp add: calculate_baseline_sleep_def length_baseline_durations)
next
  assume "length (filter (baseline_query u t) rows) = 30"
  then obtain b where "calculate_baseline_sleep u t rows = Some b"
    by (simp add: calculate_baseline_sleep_def length_baseline_durations Let_def)
  with calculate_baseline_sleep_range [OF this]
  show "\<exists>b. calculate_baseline_sleep u t rows = Some b \<and> 180 \<le> b \<and> b \<le> 720" by blast
next
  assume "30 \<le> length (filter (baseline_query u t) rows) \<and>
    length (iqr_filter (baseline_durations u t rows)) < 20"
  then show "calculate_baseline_sleep u t rows = Some (py_int (mean (baseline_durations u t rows)))"
    by (simp add: calculate_baseline_sleep_def length_baseline_durations Let_def)
qed

text \<open>
  29 and 30 nights of 7 hours, and the thirty durations of which the filter keeps sixteen: their
  mean is 423 minutes (the mean of the sixteen would be 400).
\<close>

theorem baseline_boundary_and_fallback_witness:
  "calculate_baseline_sleep 1 100 (example_nights 100 (replicate 29 25200)) = None \<and>
   (\<exists>b. calculate_baseline_sleep 1 100 (example_nights 100 (replicate 30 25200)) = Some b \<and>
        180 \<le> b \<and> b \<le> 720) \<and>
   calculate_baseline_sleep 1 100 (example_nights 100 outlier_durations) = Some 423"
proof -
  have q: "\<And>ds. \<forall>s\<in>set ds. 10800 \<le> s \<and> s \<le> 43200 \<Longrightarrow>
             filter (baseline_query 1 100) (example_nights 100 ds) = example_nights 100 ds"
    by (simp add: example_nights_def baseline_query_def example_row_def filter_map o_def)
  have l29: "length (filter (baseline_query 1 100) (example_nights 100 (replicate 29 25200))) = 29"
    by (subst q) (simp_all add: example_nights_def)
  have l30: "length (filter (baseline_query 1 100) (example_nights 100 (replicate 30 25200))) = 30"
    by (subst q) (simp_all add: example_nights_def)
  have lfb: "30 \<le> length (filter (baseline_query 1 100) (example_nights 100 outlier_durations))"
    by (subst q) (simp_all add: example_nights_def outlier_durations_def)
  have ds: "baseline_durations 1 100 (example_nights 100 outlier_durations)
             = replicate 7 180 @ [399] @ replicate 14 400 @ [401] @ replicate 7 720"
    unfolding baseline_durations_def
    by (subst q) (simp_all add: outlier_durations_def example_nights_def actual_minutes_def example_row_def)
  have "length (iqr_filter (replicate 7 180 @ [399] @ replicate 14 400 @ [401] @ replicate 7 720)) = 16"
    by code_simp
  then have lf: "length (iqr_filter (baseline_durations 1 100 (example_nights 100 outlier_durations))) < 20"
    unfolding ds by simp
  have "py_int (mean (replicate 7 180 @ [399] @ replicate 14 400 @ [401] @ replicate 7 720)) = 423"
    by code_simp
  then have mv: "py_int (mean (baseline_durations 1 100 (example_nights 100 outlier_durations))) = 423"
    unfolding ds by simp
  show ?thesis
    using baseline_boundary_and_fallback [of 1 100 "example_nights 100 (replicate 29 25200)"]
          baseline_boundary_and_fallback [of 1 100 "example_nights 100 (replicate 30 25200)"]
          baseline_boundary_and_fallback [of 1 100 "example_nights 100 outlier_durations"]
          l29 l30 lfb lf mv
    by simp
qed

subsection \<open>Sleep debt\<close>









subsection \<open>What the estimator counts as a night\<close>

lemma insort_key_map:
  "insort_key k (g x) (map g xs) = map g (insort_key (\<lambda>x. k (g x)) x xs)"
  by (induction xs) simp_all

lemma sort_key_map:
  "sort_key k (map g xs) = map g (sort_key (\<lambda>x. k (g x)) xs)"
  by (induction xs) (simp_all add: insort_key_map)

lemma debt_loop_map:
  assumes "\<And>r. actual_minutes (g r) = actual_minutes r"
  shows "debt_loop b i (map g rs) acc = debt_loop b i rs acc"
  by (induction rs arbitrary: i acc) (auto simp: assms Let_def)

lemma retype_simps [simp]:
  "debt_query u t (r\<lparr>sl_sleep_type := x\<rparr>) = debt_query u t r"
  "baseline_query u t (r\<lparr>sl_sleep_type := x\<rparr>) = baseline_query u t r"
  "actual_minutes (r\<lparr>sl_sleep_type := x\<rparr>) = actual_minutes r"
  by (simp_all add: debt_query_def baseline_query_def actual_minutes_def)

lemma baseline_durations_retype:
  "baseline_durations u t (map (\<lambda>r. r\<lparr>sl_sleep_type := ty r\<rparr>) rows) = baseline_durations u t rows"
  by (simp add: baseline_durations_def filter_map o_def)

lemma debt_records_retype:
  "debt_records u t (map (\<lambda>r. r\<lparr>sl_sleep_type := ty r\<rparr>) rows)
     = map (\<lambda>r. r\<lparr>sl_sleep_type := ty r\<rparr>) (debt_records u t rows)"
  by (simp add: debt_records_def filter_map o_def sort_key_map)

lemma calculate_baseline_sleep_retype:
  "calculate_baseline_sleep u t (map (\<lambda>r. r\<lparr>sl_sleep_type := ty r\<rparr>) rows)
     = calculate_baseline_sleep u t rows"
  by (simp add: calculate_baseline_sleep_def baseline_durations_retype)

lemma weighted_sleep_debt_retype:
  "weighted_sleep_debt b (map (\<lambda>r. r\<lparr>sl_sleep_type := ty r\<rparr>) rs) = weighted_sleep_debt b rs"
  by (simp add: weighted_sleep_debt_def debt_loop_map)

lemma actual_minutes_retype:
  "map actual_minutes (map (\<lambda>r. r\<lparr>sl_sleep_type := ty r\<rparr>) rs) = map actual_minutes rs"
  by (simp add: o_def)

lemma debt_trend_of_retype:
  "debt_trend_of (map (\<lambda>r. r\<lparr>sl_sleep_type := ty r\<rparr>) rs) = debt_trend_of rs"
  by (simp add: debt_trend_of_def take_map [symmetric] drop_map [symmetric] actual_minutes_retype
           del: map_map)

lemma calculate_sleep_debt_retype:
  "calculate_sleep_debt u t (map (\<lambda>r. r\<lparr>sl_sleep_type := ty r\<rparr>) rows)
     = calculate_sleep_debt u t rows"
  by (simp add: calculate_sleep_debt_def calculate_baseline_sleep_retype debt_records_retype
        weighted_sleep_debt_retype debt_trend_of_retype actual_minutes_retype Let_def
        del: map_map split: option.split)

lemma debt_loop_append:
  "debt_loop b i (rs @ [r]) acc =
     (fst (debt_loop b i rs acc) + (of_int b - actual_minutes r) * weight (i + length rs),
      snd (debt_loop b i rs acc) + weight (i + length rs))"
  by (induction rs arbitrary: i acc) (auto simp: Let_def)

text \<open>
  C10.  The estimator never reads the segment type: relabelling the types of the rows in any
  way leaves its result unchanged.  The records of the debt window are all the user's rows of
  the 14 days with a duration, whatever their type and however short; the durations of the
  baseline are those of all the rows of the 90 days with a duration between 3 and 12 hours; and
  each record of the debt window, a nap as well, adds the term
  \<open>(baseline - its minutes) * weight\<close> to the weighted sum and its weight to the total weight.
\<close>

theorem debt_nights_are_segment_rows:
  "calculate_sleep_debt u t (map (\<lambda>r. r\<lparr>sl_sleep_type := ty r\<rparr>) rows)
     = calculate_sleep_debt u t rows \<and>
   mset (debt_records u t rows) =
     filter_mset (\<lambda>r. sl_user_id r = u \<and> t - 13 \<le> sl_day r \<and> sl_day r \<le> t \<and>
                       sl_total_sleep_duration r \<noteq> None) (mset rows) \<and>
   mset (baseline_durations u t rows) =
     image_mset actual_minutes
       (filter_mset (\<lambda>r. sl_user_id r = u \<and> t - 89 \<le> sl_day r \<and> sl_day r \<le> t \<and>
                         (\<exists>s. sl_total_sleep_duration r = Some s \<and> 10800 \<le> s \<and> s \<le> 43200))
          (mset rows)) \<and>
   debt_loop b 0 (rs @ [r]) (0, 0) =
     (fst (debt_loop b 0 rs (0, 0)) + (of_int b - actual_minutes r) * weight (length rs),
      snd (debt_loop b 0 rs (0, 0)) + weight (length rs))"
proof (intro conjI)
  show "calculate_sleep_debt u t (map (\<lambda>r. r\<lparr>sl_sleep_type := ty r\<rparr>) rows)
     = calculate_sleep_debt u t rows"
    by (rule calculate_sleep_debt_retype)
  have "debt_query u t = (\<lambda>r. sl_user_id r = u \<and> t - 13 \<le> sl_day r \<and> sl_day r \<le> t \<and>
                       sl_total_sleep_duration r \<noteq> None)"
    by (simp add: debt_query_def fun_eq_iff)
  then show "mset (debt_records u t rows) =
     filter_mset (\<lambda>r. sl_user_id r = u \<and> t - 13 \<le> sl_day r \<and> sl_day r \<le> t \<and>
                       sl_total_sleep_duration r \<noteq> None) (mset rows)"
    by (simp add: debt_records_def)
  have "baseline_query u t = (\<lambda>r. sl_user_id r = u \<and> t - 89 \<le> sl_day r \<and> sl_day r \<le> t \<and>
                         (\<exists>s. sl_total_sleep_duration r = Some s \<and> 10800 \<le> s \<and> s \<le> 43200))"
    by (auto simp: baseline_query_def fun_eq_iff split: option.splits)
  then show "mset (baseline_durations u t rows) =
     image_mset actual_minutes
       (filter_mset (\<lambda>r. sl_user_id r = u \<and> t - 89 \<le> sl_day r \<and> sl_day r \<le> t \<and>
                         (\<exists>s. sl_total_sleep_duration r = Some s \<and> 10800 \<le> s \<and> s \<le> 43200))
          (mset rows))"
    by (simp add: baseline_durations_def)
  show "debt_loop b 0 (rs @ [r]) (0, 0) =
     (fst (debt_loop b 0 rs (0, 0)) + (of_int b - actual_minutes r) * weight (length rs),
      snd (debt_loop b 0 rs (0, 0)) + weight (length rs))"
    using debt_loop_append [of b 0 rs r "(0, 0)"] by simp
qed

text \<open>
  Twenty-six older nights and, on the target day, four primary sleeps of 7 hours and a nap of
  20 minutes: the nap is the fifth record without which the data would be insufficient, and
  its term of 400 minutes makes the debt 73 minutes.
\<close>

theorem debt_nights_are_segment_rows_witness:
  "calculate_sleep_debt 1 100
     (map (\<lambda>r. r\<lparr>sl_sleep_type := Some ''long_sleep''\<rparr>)
        (example_nights 50 (replicate 26 25200) @
         example_nights 100 [25200, 25200, 25200, 25200] @
         [example_row 1 ''nap'' ''sleep'' 100 (Some 1200) None None]))
     = Some \<lparr>sleep_debt_minutes = Some 73, baseline_sleep_minutes = 420,
              recent_14d_avg_minutes = Some 340, debt_trend = ''stable'',
              sleep_balance_score = Some 34, data_quality = ''limited''\<rparr> \<and>
   calculate_sleep_debt 1 100
     (example_nights 50 (replicate 26 25200) @
      example_nights 100 [25200, 25200, 25200, 25200] @
      [example_row 1 ''nap'' ''sleep'' 100 (Some 1200) None None])
     = Some \<lparr>sleep_debt_minutes = Some 73, baseline_sleep_minutes = 420,
              recent_14d_avg_minutes = Some 340, debt_trend = ''stable'',
              sleep_balance_score = Some 34, data_quality = ''limited''\<rparr> \<and>
   calculate_sleep_debt 1 100
     (example_nights 50 (replicate 26 25200) @ example_nights 100 [25200, 25200, 25200, 25200])
     = Some \<lparr>sleep_debt_minutes = None, baseline_sleep_minutes = 420,
              recent_14d_avg_minutes = None, debt_trend = ''unknown'',
              sleep_balance_score = None, data_quality = ''insufficient''\<rparr>"
proof -
  let ?t = "example_nights 50 (replicate 26 25200) @
      example_nights 100 [25200, 25200, 25200, 25200] @
      [example_row 1 ''nap'' ''sleep'' 100 (Some 1200) None None]"
  have a: "calculate_sleep_debt 1 100 ?t
     = Some \<lparr>sleep_debt_minutes = Some 73, baseline_sleep_minutes = 420,
              recent_14d_avg_minutes = Some 340, debt_trend = ''stable'',
              sleep_balance_score = Some 34, data_quality = ''limited''\<rparr>"
    by code_simp
  have b: "calculate_sleep_debt 1 100
     (example_nights 50 (replicate 26 25200) @ example_nights 100 [25200, 25200, 25200, 25200])
     = Some \<lparr>sleep_debt_minutes = None, baseline_sleep_minutes = 420,
              recent_14d_avg_minutes = None, debt_trend = ''unknown'',
              sleep_balance_score = None, data_quality = ''insufficient''\<rparr>"
    by code_simp
  from debt_nights_are_segment_rows [of 1 100 "\<lambda>r. Some ''long_sleep''" ?t]
  have "calculate_sleep_debt 1 100 (map (\<lambda>r. r\<lparr>sl_sleep_type := Some ''long_sleep''\<rparr>) ?t)
          = calculate_sleep_debt 1 100 ?t" by (rule conjunct1)
  with a b show ?thesis by simp
qed

end
